theory Spec2Isabelle
  imports Complex_Main "HOL-Library.Word"
begin

section \<open>Arrays\<close>

text \<open>
  A two-dimensional numpy array is a list of rows. The pixel type of the test image
  is uint8 (an \<open>8 word\<close>); every array the scripts compute with is float64, written
  here as \<open>real\<close>: the arithmetic of the model is exact, and it coincides with the
  float64 arithmetic wherever that is exact (sums and differences of pixel values).
\<close>

type_synonym image = "real list list"

definition nrows :: "'a list list \<Rightarrow> nat" where
  "nrows m = length m"

definition ncols :: "'a list list \<Rightarrow> nat" where
  "ncols m = (case m of [] \<Rightarrow> 0 | r # _ \<Rightarrow> length r)"

text \<open>\<^verbatim>\<open>np.ones(n)\<close>, \<^verbatim>\<open>np.zeros(n)\<close> and \<^verbatim>\<open>np.ones((r, c))\<close>.\<close>

definition np_ones :: "nat \<Rightarrow> real list" where
  "np_ones n = replicate n 1"

definition np_zeros :: "nat \<Rightarrow> real list" where
  "np_zeros n = replicate n 0"

definition np_ones2 :: "nat \<Rightarrow> nat \<Rightarrow> image" where
  "np_ones2 r c = replicate r (np_ones c)"

text \<open>\<^verbatim>\<open>a.T\<close>: entry \<open>(j, i)\<close> of the transpose is entry \<open>(i, j)\<close> of \<open>a\<close>.\<close>

definition np_T :: "'a list list \<Rightarrow> 'a list list" where
  "np_T m = map (\<lambda>j. map (\<lambda>i. m ! i ! j) [0..<nrows m]) [0..<ncols m]"

text \<open>\<^verbatim>\<open>np.array(img, dtype=float)\<close> on a uint8 image.\<close>

definition as_float :: "8 word list list \<Rightarrow> image" where
  "as_float img = map (map (\<lambda>p. real (unat p))) img"

section \<open>The correlation routine\<close>

text \<open>
  \<^verbatim>\<open>scipy.ndimage.correlate(input, weights)\<close> with its defaults: \<^verbatim>\<open>mode='reflect'\<close>
  and \<^verbatim>\<open>origin=0\<close>. The input is extended by reflecting about the edge of the last
  pixel (\<open>d c b a | a b c d | d c b a\<close>): index \<open>i\<close> of an axis of length \<open>n\<close> reads
  position \<open>reflect n i\<close>.
\<close>

definition reflect :: "nat \<Rightarrow> int \<Rightarrow> nat" where
  "reflect n i =
     (let m = i mod (2 * int n)
      in nat (if m < int n then m else 2 * int n - 1 - m))"

text \<open>
  The kernel is centred at index \<open>size div 2\<close> along each axis; the output has the
  shape of the input, and entry \<open>(i, j)\<close> is the sum over the kernel of weight times
  the input at the shifted position.
\<close>

definition correlate :: "image \<Rightarrow> image \<Rightarrow> image" where
  "correlate input weights =
     (let R = nrows input; C = ncols input;
          kr = nrows weights; kc = ncols weights
      in map (\<lambda>i. map (\<lambda>j.
           (\<Sum>a\<leftarrow>[0..<kr]. \<Sum>b\<leftarrow>[0..<kc].
              weights ! a ! b *
              input ! reflect R (int i + int a - int (kr div 2))
                    ! reflect C (int j + int b - int (kc div 2))))
           [0..<C]) [0..<R])"

section \<open>The image-filter demo\<close>

text \<open>
  Lines 25 to 28 of \<^verbatim>\<open>F5_30_filter_images.py\<close>: the list of kernels, built by three
  appends; the third is the transpose of the last one appended before it.
\<close>

definition Filters :: "image list" where
  "Filters =
     (let F = [];
          F = F @ [map (map (\<lambda>v. v / 121)) (np_ones2 11 11)];
          F = F @ [[np_ones 11, np_zeros 11, map (\<lambda>v. -1 * v) (np_ones 11)]];
          F = F @ [np_T (last F)]
      in F)"

text \<open>Lines 31 to 33: every kernel is correlated with the float image.\<close>

definition filtered :: "image \<Rightarrow> image list" where
  "filtered img_f = map (\<lambda>filt. correlate img_f filt) Filters"

text \<open>\<^verbatim>\<open>a > t\<close> on an array: the elementwise comparison, a boolean array.\<close>

definition np_gt :: "image \<Rightarrow> real \<Rightarrow> bool list list" where
  "np_gt a t = map (map (\<lambda>v. v > t)) a"





section \<open>Errors\<close>

text \<open>
  The exceptions the scripts can meet: a failed import, and a failed write of a
  figure file. Nothing but the import of the styling module is caught.
\<close>

datatype py_error = ImportError string | OSError string

definition and_then :: "py_error + 'a \<Rightarrow> ('a \<Rightarrow> py_error + 'b) \<Rightarrow> py_error + 'b" where
  "and_then r f = (case r of Inl e \<Rightarrow> Inl e | Inr v \<Rightarrow> f v)"

text \<open>A keyword argument left out takes the default of the signature.\<close>

definition default_arg :: "'a \<Rightarrow> 'a option \<Rightarrow> 'a" where
  "default_arg d v = (case v of None \<Rightarrow> d | Some x \<Rightarrow> x)"

section \<open>Figures and the plotting state\<close>

text \<open>What an image panel of the filter demo shows.\<close>

datatype panel =
    Gray8 "8 word list list"
  | GrayF "real list list"
  | Mask "bool list list"

text \<open>
  The drawing calls of the two scripts, each with the arguments the script passes.
  A figure keeps the calls made on it, in order.
\<close>

datatype artist =
    Scatter "real list" "real list"
  | Hist "real list" "nat option" bool
  | Boxplot "real list" string bool
  | Errorbar "real list" "real list" "real list" string real real
  | HLines real real real string string
  | AxHLine real string string
  | AxVLine real string string
  | BarChart "string list" "real list list" bool string
  | Bubble "real list" "real list" "real list"
  | Pie "real list" "real list" "string list" string bool real string
  | AxisEqual
  | Surface nat nat string
  | ZLim real real
  | Colorbar real real
  | Wireframe nat nat
  | GrayMap
  | Imshow nat nat panel
  | HideTicks

record figure =
  artists :: "artist list"
  xlabel :: string
  ylabel :: string
  title :: string
  xlim :: "real \<times> real"
  ylim :: "real \<times> real"
  autoscale_x :: bool
  autoscale_y :: bool
  tight :: bool

definition new_figure :: figure where
  "new_figure =
     \<lparr>artists = [], xlabel = [], ylabel = [], title = [],
      xlim = (0, 1), ylim = (0, 1), autoscale_x = True, autoscale_y = True,
      tight = False\<rparr>"

text \<open>
  What the scripts do not decide is a parameter: whether a path can be written,
  the view limits autoscaling gives a list of drawing calls, and whether \<^verbatim>\<open>show\<close>
  returns with the figures closed (a blocking window) or still open.
\<close>

record backend =
  writable :: "string \<Rightarrow> bool"
  view_x :: "artist list \<Rightarrow> real \<times> real"
  view_y :: "artist list \<Rightarrow> real \<times> real"
  show_closes :: bool

text \<open>
  The state of a run: the generator of \<^verbatim>\<open>np.random\<close>, the open figures (the current
  one first), the files written (the figure saved and its resolution), the lines
  printed, the figures displayed, and the style settings made.
\<close>

record 'g world =
  rng :: 'g
  figs :: "figure list"
  files :: "string \<rightharpoonup> figure \<times> nat"
  console :: "string list"
  shown :: "figure list"
  rc :: "(string \<times> string) list"

definition gcf :: "'g world \<Rightarrow> figure" where
  "gcf w = (case figs w of [] \<Rightarrow> new_figure | f # _ \<Rightarrow> f)"

text \<open>A pyplot call acts on the current figure and opens one when there is none.\<close>

definition on_gcf :: "(figure \<Rightarrow> figure) \<Rightarrow> 'g world \<Rightarrow> 'g world" where
  "on_gcf g w = w\<lparr>figs := g (gcf w) # tl (figs w)\<rparr>"

definition plt_figure :: "'g world \<Rightarrow> 'g world" where
  "plt_figure w = w\<lparr>figs := new_figure # figs w\<rparr>"

definition draw :: "backend \<Rightarrow> artist \<Rightarrow> figure \<Rightarrow> figure" where
  "draw be a f =
     (let as = artists f @ [a]
      in f\<lparr>artists := as,
           xlim := (if autoscale_x f then view_x be as else xlim f),
           ylim := (if autoscale_y f then view_y be as else ylim f)\<rparr>)"

definition plt_draw :: "backend \<Rightarrow> artist \<Rightarrow> 'g world \<Rightarrow> 'g world" where
  "plt_draw be a w = on_gcf (draw be a) w"

definition plt_xlabel :: "string \<Rightarrow> 'g world \<Rightarrow> 'g world" where
  "plt_xlabel s w = on_gcf (\<lambda>f. f\<lparr>xlabel := s\<rparr>) w"

definition plt_ylabel :: "string \<Rightarrow> 'g world \<Rightarrow> 'g world" where
  "plt_ylabel s w = on_gcf (\<lambda>f. f\<lparr>ylabel := s\<rparr>) w"

definition plt_title :: "string \<Rightarrow> 'g world \<Rightarrow> 'g world" where
  "plt_title s w = on_gcf (\<lambda>f. f\<lparr>title := s\<rparr>) w"

definition get_xlim :: "'g world \<Rightarrow> real \<times> real" where
  "get_xlim w = xlim (gcf w)"

definition set_xlim :: "real \<times> real \<Rightarrow> 'g world \<Rightarrow> 'g world" where
  "set_xlim l w = on_gcf (\<lambda>f. f\<lparr>xlim := l, autoscale_x := False\<rparr>) w"

definition set_ylim :: "real \<times> real \<Rightarrow> 'g world \<Rightarrow> 'g world" where
  "set_ylim l w = on_gcf (\<lambda>f. f\<lparr>ylim := l, autoscale_y := False\<rparr>) w"

text \<open>
  \<^verbatim>\<open>plt.tight_layout()\<close> adjusts the layout of the current figure. The expression
  \<^verbatim>\<open>plt.tight_layout\<close> without the parentheses only names the function.
\<close>

definition plt_tight_layout :: "'g world \<Rightarrow> 'g world" where
  "plt_tight_layout w = on_gcf (\<lambda>f. f\<lparr>tight := True\<rparr>) w"

definition plt_tight_layout_name :: "'g world \<Rightarrow> 'g world" where
  "plt_tight_layout_name w = w"

definition plt_savefig :: "backend \<Rightarrow> string \<Rightarrow> nat \<Rightarrow> 'g world \<Rightarrow> py_error + 'g world" where
  "plt_savefig be path dpi w =
     (if writable be path
      then Inr ((on_gcf id w)\<lparr>files := (files w)(path \<mapsto> (gcf w, dpi))\<rparr>)
      else Inl (OSError path))"

definition print :: "string \<Rightarrow> 'g world \<Rightarrow> 'g world" where
  "print s w = w\<lparr>console := console w @ [s]\<rparr>"

definition plt_show :: "backend \<Rightarrow> 'g world \<Rightarrow> 'g world" where
  "plt_show be w =
     w\<lparr>shown := shown w @ rev (figs w),
       figs := (if show_closes be then [] else figs w)\<rparr>"

definition plt_close :: "'g world \<Rightarrow> 'g world" where
  "plt_close w = w\<lparr>figs := tl (figs w)\<rparr>"

definition set_rc :: "string \<Rightarrow> string \<Rightarrow> 'g world \<Rightarrow> 'g world" where
  "set_rc k v w = w\<lparr>rc := (k, v) # rc w\<rparr>"

text \<open>\<^verbatim>\<open>os.path.join(a, b)\<close> of \<^verbatim>\<open>posixpath\<close>.\<close>

definition os_path_join :: "string \<Rightarrow> string \<Rightarrow> string" where
  "os_path_join a b =
     (if b \<noteq> [] \<and> hd b = CHR ''/'' then b
      else if a = [] \<or> last a = CHR ''/'' then a @ b
      else a @ ''/'' @ b)"

section \<open>The figure persistence helper\<close>

text \<open>
  \<^verbatim>\<open>printout\<close> of \<^verbatim>\<open>SAP_show_plots.py\<close>, statement by statement. The labels, the
  title and the output directory are keyword arguments with defaults.
\<close>

definition printout ::
  "backend \<Rightarrow> string \<Rightarrow> string option \<Rightarrow> string option \<Rightarrow> string option \<Rightarrow>
   string option \<Rightarrow> 'g world \<Rightarrow> py_error + 'g world" where
  "printout be outFile xlabel' ylabel' title' outDir' w0 =
     (let xlabel = default_arg [] xlabel';
          ylabel = default_arg [] ylabel';
          title = default_arg [] title';
          outDir = default_arg ''.'' outDir';
          w = plt_xlabel xlabel w0;
          w = plt_ylabel ylabel w;
          w = plt_title title w;
          w = plt_tight_layout_name w;
          xlim = get_xlim w;
          w = plt_draw be (HLines 0 (fst xlim) (snd xlim) ''--'' ''#999999'') w;
          w = set_xlim xlim w;
          saveTo = os_path_join outDir outFile
      in and_then (plt_savefig be saveTo 200 w) (\<lambda>w.
           let w = print (''OutDir: '' @ outDir) w;
               w = print (''Figure saved to '' @ outFile) w;
               w = plt_show be w;
               w = plt_close w
           in Inr w))"

section \<open>The pseudo-random source\<close>

text \<open>
  \<^verbatim>\<open>np.random\<close> keeps one global generator. Its algorithm is a parameter: the state a
  seed gives, and the step that draws one normal or one uniform value.
\<close>

record 'g generator =
  seed_state :: "nat \<Rightarrow> 'g"
  normal :: "'g \<Rightarrow> real \<times> 'g"
  uniform :: "'g \<Rightarrow> real \<times> 'g"

fun draws :: "('g \<Rightarrow> real \<times> 'g) \<Rightarrow> nat \<Rightarrow> 'g \<Rightarrow> real list \<times> 'g" where
  "draws step 0 g = ([], g)"
| "draws step (Suc n) g =
     (let (v, g') = step g; (vs, g'') = draws step n g' in (v # vs, g''))"

fun table :: "('g \<Rightarrow> real \<times> 'g) \<Rightarrow> nat \<Rightarrow> nat \<Rightarrow> 'g \<Rightarrow> real list list \<times> 'g" where
  "table step 0 c g = ([], g)"
| "table step (Suc r) c g =
     (let (row, g') = draws step c g; (rows, g'') = table step r c g' in (row # rows, g''))"

definition np_random_seed :: "'g generator \<Rightarrow> nat \<Rightarrow> 'g world \<Rightarrow> 'g world" where
  "np_random_seed gen s w = w\<lparr>rng := seed_state gen s\<rparr>"

definition np_random_randn :: "'g generator \<Rightarrow> nat \<Rightarrow> 'g world \<Rightarrow> real list \<times> 'g world" where
  "np_random_randn gen n w =
     (let (xs, g) = draws (normal gen) n (rng w) in (xs, w\<lparr>rng := g\<rparr>))"

definition np_random_rand ::
  "'g generator \<Rightarrow> nat \<Rightarrow> nat \<Rightarrow> 'g world \<Rightarrow> real list list \<times> 'g world" where
  "np_random_rand gen r c w =
     (let (t, g) = table (uniform gen) r c (rng w) in (t, w\<lparr>rng := g\<rparr>))"

definition np_arange :: "nat \<Rightarrow> int list" where
  "np_arange n = map int [0..<n]"

section \<open>Data frames\<close>

record dataframe =
  columns :: "string list"
  rows :: "real list list"

definition pd_DataFrame :: "real list list \<Rightarrow> string list \<Rightarrow> dataframe" where
  "pd_DataFrame d cols = \<lparr>columns = cols, rows = d\<rparr>"

fun index_of :: "'a list \<Rightarrow> 'a \<Rightarrow> nat" where
  "index_of [] x = 0"
| "index_of (y # ys) x = (if x = y then 0 else Suc (index_of ys x))"

definition column :: "dataframe \<Rightarrow> string \<Rightarrow> real list" where
  "column df c = map (\<lambda>r. r ! index_of (columns df) c) (rows df)"

section \<open>The styling collaborator\<close>

text \<open>
  The module \<^verbatim>\<open>utilities.SAP_mystyle\<close> (functions \<^verbatim>\<open>setFonts\<close> and \<^verbatim>\<open>showData\<close>) and
  the module \<^verbatim>\<open>utilities.my_style\<close> (functions \<^verbatim>\<open>set_fonts\<close> and \<^verbatim>\<open>show_data\<close>) are
  not among the sources: what they do is a parameter. An environment says which of
  the two modules can be imported.
\<close>

record 'g SAP_mystyle =
  setFonts :: "nat \<Rightarrow> 'g world \<Rightarrow> 'g world"
  showData :: "string \<Rightarrow> 'g world \<Rightarrow> py_error + 'g world"

record 'g my_style =
  set_fonts :: "nat \<Rightarrow> 'g world \<Rightarrow> 'g world"
  show_data :: "string \<Rightarrow> 'g world \<Rightarrow> py_error + 'g world"

record 'g modules =
  utilities_SAP_mystyle :: "'g SAP_mystyle option"
  utilities_my_style :: "'g my_style option"

definition import_from :: "'m option \<Rightarrow> string \<Rightarrow> py_error + 'm" where
  "import_from m name = (case m of None \<Rightarrow> Inl (ImportError name) | Some v \<Rightarrow> Inr v)"

text \<open>
  Lines 29 to 37 of \<^verbatim>\<open>SAP_show_plots.py\<close>: the import is tried, and an ImportError
  binds the two names to local functions instead: \<^verbatim>\<open>setFonts\<close> returns at once and
  \<^verbatim>\<open>showData\<close> calls \<^verbatim>\<open>plt.show()\<close>.
\<close>

definition fallback :: "backend \<Rightarrow> 'g SAP_mystyle" where
  "fallback be =
     \<lparr>setFonts = (\<lambda>options w. w),
      showData = (\<lambda>options w. Inr (plt_show be w))\<rparr>"

definition import_SAP_mystyle :: "backend \<Rightarrow> 'g modules \<Rightarrow> py_error + 'g SAP_mystyle" where
  "import_SAP_mystyle be env =
     (case import_from (utilities_SAP_mystyle env) ''utilities.SAP_mystyle'' of
        Inr m \<Rightarrow> Inr m
      | Inl (ImportError _) \<Rightarrow> Inr (fallback be)
      | Inl e \<Rightarrow> Inl e)"

section \<open>The statistical-plot gallery\<close>

text \<open>Lines 109 to 111: the data of the errorbar plot.\<close>

definition errorbar_data :: "int list \<times> int list \<times> real list" where
  "errorbar_data =
     (let x = np_arange 5;
          y = map (\<lambda>v. v ^ 2) x;
          errorBar = map (\<lambda>v. real_of_int v / 2) x
      in (x, y, errorBar))"

text \<open>Lines 137 to 139: the data of the pie plot.\<close>

definition pie_data :: "string list \<times> real list \<times> real list" where
  "pie_data =
     (let txtLabels = [''Cats'', ''Dogs'', ''Frogs'', ''Others''];
          fractions = [45, 30, 15, 10];
          offsets = [0, 5 / 100, 0, 0]
      in (txtLabels, fractions, offsets))"

text \<open>\<^verbatim>\<open>simplePlots\<close>, statement by statement.\<close>

definition simplePlots ::
  "backend \<Rightarrow> 'g generator \<Rightarrow> 'g SAP_mystyle \<Rightarrow> 'g world \<Rightarrow> py_error + 'g world" where
  "simplePlots be gen sty w0 =
     (let w = np_random_seed gen 1234 w0;
          (x, w) = np_random_randn gen 500 w;
          w = set_rc ''context'' ''notebook'' w;
          w = set_rc ''style'' ''ticks'' w;
          w = set_rc ''palette'' ''muted'' w;
          w = setFonts sty 16 w;
          w = plt_draw be (Scatter (map real_of_int (np_arange (length x))) x) w;
          w = set_xlim (0, real (length x)) w
      in
      and_then (printout be ''scatterPlot.png'' (Some ''Datapoints'') (Some ''Values'')
                  (Some ''Scatter'') None w) (\<lambda>w.
      let w = plt_draw be (Hist x None False) w in
      and_then (printout be ''histogram_plain.png'' (Some ''Data Values'')
                  (Some ''Frequency'') (Some ''Histogram, default settings'') None w) (\<lambda>w.
      let w = plt_draw be (Hist x (Some 25) True) w in
      and_then (printout be ''density_histogram.png'' (Some ''Data Values'')
                  (Some ''Probability'') (Some ''Density Histogram, 25 bins'') None w) (\<lambda>w.
      let w = plt_draw be (Boxplot x ''*'' True) w in
      and_then (printout be ''boxplot.png'' (Some ''Values'') None (Some ''Boxplot'') None w) (\<lambda>w.
      let w = plt_draw be (Boxplot x ''*'' False) w;
          w = plt_title ''Boxplot, horizontal'' w;
          w = plt_xlabel ''Values'' w;
          w = plt_show be w;
          (x, y, errorBar) = errorbar_data;
          w = plt_draw be (Errorbar (map real_of_int x) (map real_of_int y) errorBar ''o'' 5 3) w;
          w = set_xlim (- 2 / 10, 42 / 10) w;
          w = set_ylim (- 2 / 10, 19) w
      in
      and_then (printout be ''Errorbars.png'' (Some ''Data Values'') (Some ''Measurements'')
                  (Some ''Errorbars'') None w) (\<lambda>w.
      let w = np_random_seed gen 1234 w;
          w = setFonts sty 20 w;
          (d, w) = np_random_rand gen 10 4 w;
          df = pd_DataFrame d [''a'', ''b'', ''c'', ''d''];
          w = plt_figure w;
          w = plt_draw be (BarChart (columns df) (rows df) False ''muted'') w
      in
      and_then (showData sty ''barplot.png'' w) (\<lambda>w.
      let (d2, w) = np_random_rand gen 50 3 w;
          df2 = pd_DataFrame d2 [''a'', ''b'', ''c''];
          w = plt_figure w;
          w = plt_draw be (Bubble (column df2 ''a'') (column df2 ''b'')
                             (map (\<lambda>v. v * 500) (column df2 ''c''))) w;
          w = plt_draw be (AxHLine 0 ''--'' ''#999999'') w;
          w = plt_draw be (AxVLine 0 ''--'' ''#999999'') w
      in
      and_then (printout be ''bivariate.png'' None None None None w) (\<lambda>w.
      let w = set_rc ''style'' ''ticks'' w;
          (txtLabels, fractions, offsets) = pie_data;
          w = plt_draw be (Pie fractions offsets txtLabels ''%1.1f%%'' True 90 ''muted'') w;
          w = plt_draw be AxisEqual w
      in printout be ''piePlot.png'' None None (Some '' '') None w))))))))"

text \<open>
  \<^verbatim>\<open>show3D\<close>: one figure with a surface and a wireframe. The surface and the test
  data are floating-point grids the claims say nothing about; a drawing call keeps
  the strides and the colour map only.
\<close>

definition show3D :: "backend \<Rightarrow> 'g SAP_mystyle \<Rightarrow> 'g world \<Rightarrow> py_error + 'g world" where
  "show3D be sty w0 =
     (let w = plt_figure w0;
          w = setFonts sty 16 w;
          w = plt_draw be (Surface 1 1 ''GnBu'') w;
          w = plt_draw be (ZLim (- 101 / 100) (101 / 100)) w;
          w = plt_draw be (Colorbar (5 / 10) 10) w;
          w = plt_draw be (Wireframe 10 10) w
      in showData sty ''3dGraph.png'' w)"

text \<open>The script run as a program: the import, then the two demos.\<close>

definition SAP_show_plots ::
  "backend \<Rightarrow> 'g generator \<Rightarrow> 'g modules \<Rightarrow> 'g world \<Rightarrow> py_error + 'g world" where
  "SAP_show_plots be gen env w =
     and_then (import_SAP_mystyle be env) (\<lambda>sty.
     and_then (simplePlots be gen sty w) (\<lambda>w.
     show3D be sty w))"

section \<open>The image-filter script\<close>

text \<open>
  \<^verbatim>\<open>F5_30_filter_images.py\<close> run as a program on the test image \<open>img\<close>. Line 15
  imports the styling module with no handler around it.
\<close>

definition F5_30_filter_images ::
  "backend \<Rightarrow> 'g modules \<Rightarrow> 8 word list list \<Rightarrow> 'g world \<Rightarrow> py_error + 'g world" where
  "F5_30_filter_images be env img w0 =
     and_then (import_from (utilities_my_style env) ''utilities.my_style'') (\<lambda>sty.
       let img_f = as_float img;
           filtered = filtered img_f;
           w = plt_figure w0;
           w = plt_draw be GrayMap w;
           w = plt_draw be (Imshow 0 0 (Gray8 img)) w;
           w = plt_draw be (Imshow 0 1 (GrayF (filtered ! 0))) w;
           w = plt_draw be (Imshow 1 0 (GrayF (filtered ! 1))) w;
           w = plt_draw be (Imshow 1 1 (GrayF (filtered ! 2))) w;
           w = plt_draw be (Imshow 2 0 (Mask (np_gt (filtered ! 1) 125))) w;
           w = plt_draw be (Imshow 2 1 (Mask (np_gt (filtered ! 2) 125))) w;
           w = plt_draw be HideTicks w;
           w = plt_tight_layout w;
           out_file = ''filter_demo.jpg''
       in show_data sty out_file w)"

section \<open>Properties of the arrays and of the correlation routine\<close>

lemma reflect_less: "0 < n \<Longrightarrow> reflect n i < n"
  by (auto simp: reflect_def Let_def)


lemma nrows_np_T: "nrows (np_T m) = ncols m"
  by (simp add: np_T_def nrows_def)

lemma ncols_map_upt: "ncols (map f [0..<n]) = (if n = 0 then 0 else length (f 0))"
  by (cases n) (simp_all add: ncols_def upt_conv_Cons del: upt_Suc)

lemma ncols_np_T: "0 < ncols m \<Longrightarrow> ncols (np_T m) = nrows m"
  by (simp add: np_T_def ncols_map_upt)

lemma np_T_nth: "j < ncols m \<Longrightarrow> i < nrows m \<Longrightarrow> np_T m ! j ! i = m ! i ! j"
  by (simp add: np_T_def nrows_def)

lemma sum_list_upt_swap:
  fixes f :: "nat \<Rightarrow> nat \<Rightarrow> real"
  shows "(\<Sum>a\<leftarrow>[0..<p]. \<Sum>b\<leftarrow>[0..<q]. f a b) = (\<Sum>b\<leftarrow>[0..<q]. \<Sum>a\<leftarrow>[0..<p]. f a b)"
  by (simp add: interv_sum_list_conv_sum_set_nat sum.swap [of _ "{0..<q}"])

lemma nrows_correlate: "nrows (correlate x k) = nrows x"
  by (simp add: correlate_def nrows_def Let_def)

lemma ncols_correlate: "ncols (correlate x k) = ncols x"
  unfolding correlate_def Let_def ncols_map_upt by (auto simp: nrows_def ncols_def)

lemma correlate_nth:
  "i < nrows x \<Longrightarrow> j < ncols x \<Longrightarrow>
   correlate x k ! i ! j =
     (\<Sum>a\<leftarrow>[0..<nrows k]. \<Sum>b\<leftarrow>[0..<ncols k].
        k ! a ! b * x ! reflect (nrows x) (int i + int a - int (nrows k div 2))
                      ! reflect (ncols x) (int j + int b - int (ncols k div 2)))"
  by (simp add: correlate_def nrows_def Let_def)


lemma length_np_T_row: "j < ncols m \<Longrightarrow> length (np_T m ! j) = nrows m"
  by (simp add: np_T_def)

lemma length_correlate_row: "i < nrows x \<Longrightarrow> length (correlate x k ! i) = ncols x"
  by (simp add: correlate_def Let_def)

lemma correlate_np_T: "np_T (correlate x k) = correlate (np_T x) (np_T k)"
proof (cases "0 < nrows x \<and> 0 < ncols x")
  case False
  then have "ncols x = 0"
    by (cases x) (auto simp: nrows_def ncols_def)
  then have "np_T (correlate x k) = []" "np_T x = []"
    by (simp_all add: np_T_def ncols_correlate)
  then show ?thesis by (simp add: correlate_def nrows_def)
next
  case True
  let ?R = "nrows x" and ?C = "ncols x"
  have shape: "nrows (np_T x) = ?C" "ncols (np_T x) = ?R"
    using True by (simp_all add: nrows_np_T ncols_np_T)
  have kshape: "nrows (np_T k) = ncols k" "0 < ncols k \<Longrightarrow> ncols (np_T k) = nrows k"
    by (simp_all add: nrows_np_T ncols_np_T)
  have entry: "np_T (correlate x k) ! j ! i = correlate (np_T x) (np_T k) ! j ! i"
    if ij: "j < ?C" "i < ?R" for i j
  proof (cases "0 < ncols k")
    case False
    then have k0: "ncols k = 0" and "np_T k = []" by (simp_all add: np_T_def)
    then have "nrows (np_T k) = 0" by (simp add: nrows_def)
    then have "correlate (np_T x) (np_T k) ! j ! i = 0"
      using ij by (simp add: correlate_nth shape)
    moreover have "np_T (correlate x k) ! j ! i = 0"
      using ij k0 by (simp add: np_T_nth ncols_correlate nrows_correlate correlate_nth)
    ultimately show ?thesis by simp
  next
    case kc: True
    have "np_T (correlate x k) ! j ! i = correlate x k ! i ! j"
      using ij by (simp add: np_T_nth ncols_correlate nrows_correlate)
    also have "\<dots> = (\<Sum>a\<leftarrow>[0..<nrows k]. \<Sum>b\<leftarrow>[0..<ncols k].
        k ! a ! b * x ! reflect ?R (int i + int a - int (nrows k div 2))
                      ! reflect ?C (int j + int b - int (ncols k div 2)))"
      using ij by (simp add: correlate_nth)
    also have "\<dots> = (\<Sum>b\<leftarrow>[0..<ncols k]. \<Sum>a\<leftarrow>[0..<nrows k].
        k ! a ! b * x ! reflect ?R (int i + int a - int (nrows k div 2))
                      ! reflect ?C (int j + int b - int (ncols k div 2)))"
      by (rule sum_list_upt_swap)
    also have "\<dots> = (\<Sum>b\<leftarrow>[0..<ncols k]. \<Sum>a\<leftarrow>[0..<nrows k].
        np_T k ! b ! a * np_T x ! reflect ?C (int j + int b - int (ncols k div 2))
                                ! reflect ?R (int i + int a - int (nrows k div 2)))"
      using True by (simp add: interv_sum_list_conv_sum_set_nat np_T_nth reflect_less)
    also have "\<dots> = correlate (np_T x) (np_T k) ! j ! i"
      using ij kc by (simp add: correlate_nth shape kshape)
    finally show ?thesis .
  qed
  show ?thesis
  proof (rule nth_equalityI)
    show len: "length (np_T (correlate x k)) = length (correlate (np_T x) (np_T k))"
      using nrows_np_T [of "correlate x k"] nrows_correlate [of "np_T x" "np_T k"] shape
      by (simp add: nrows_def ncols_correlate)
    fix j assume "j < length (np_T (correlate x k))"
    then have j: "j < ?C"
      using nrows_np_T [of "correlate x k"] by (simp add: nrows_def ncols_correlate)
    show "np_T (correlate x k) ! j = correlate (np_T x) (np_T k) ! j"
    proof (rule nth_equalityI)
      show "length (np_T (correlate x k) ! j) = length (correlate (np_T x) (np_T k) ! j)"
        using j shape
        by (simp add: length_np_T_row length_correlate_row ncols_correlate nrows_correlate)
      fix i assume "i < length (np_T (correlate x k) ! j)"
      then have "i < ?R"
        using j by (simp add: length_np_T_row ncols_correlate nrows_correlate)
      with j show "np_T (correlate x k) ! j ! i = correlate (np_T x) (np_T k) ! j ! i"
        by (rule entry)
    qed
  qed
qed


lemma F1: "Filters ! 1 = [replicate 11 1, replicate 11 0, replicate 11 (-1)]"
  by (simp add: Filters_def np_ones_def np_zeros_def Let_def)

lemma F2: "Filters ! 2 = np_T (Filters ! 1)"
  by (simp add: Filters_def Let_def)

lemma length_Filters: "length Filters = 3"
  by (simp add: Filters_def Let_def)

lemma filtered_nth: "k < 3 \<Longrightarrow> filtered x ! k = correlate x (Filters ! k)"
  by (simp add: filtered_def length_Filters)






















section \<open>The image-filter demo: the claims\<close>

text \<open>
  C2. The horizontal-edge kernel (the second of the list) is the transpose of the
  vertical-edge kernel (the third), and for every image, the transpose of the image
  correlated with the horizontal-edge kernel is the transposed image correlated with
  the vertical-edge kernel.
\<close>

theorem edge_kernels_transpose:
  "Filters ! 1 = np_T (Filters ! 2) \<and>
   np_T (filtered x ! 1) = filtered (np_T x) ! 2"
proof -
  have "Filters ! 1 = np_T (Filters ! 2)" by code_simp
  then show ?thesis
    using correlate_np_T [of x "Filters ! 1"] by (simp add: filtered_nth F2)
qed







section \<open>Properties of the plotting state and of the gallery\<close>

lemmas plt_defs = plt_xlabel_def plt_ylabel_def plt_title_def plt_tight_layout_name_def
  get_xlim_def plt_draw_def set_xlim_def plt_savefig_def print_def plt_show_def plt_close_def
  on_gcf_def gcf_def draw_def

lemma os_path_join_plain:
  "outDir \<noteq> [] \<Longrightarrow> last outDir \<noteq> CHR ''/'' \<Longrightarrow> outFile = [] \<or> hd outFile \<noteq> CHR ''/'' \<Longrightarrow>
   os_path_join outDir outFile = outDir @ ''/'' @ outFile"
  by (auto simp: os_path_join_def)


lemma printout_file:
  "writable be (os_path_join (default_arg ''.'' outDir) outFile) \<Longrightarrow>
   \<exists>w' f. printout be outFile xl yl t outDir w = Inr w' \<and>
     files w' (os_path_join (default_arg ''.'' outDir) outFile) = Some (f, 200)"
  by (simp add: printout_def Let_def and_then_def plt_defs)

lemma np_random_seed_rng: "np_random_seed gen s (w\<lparr>rng := g\<rparr>) = np_random_seed gen s w"
  by (simp add: np_random_seed_def)

lemma randn_seeded:
  "fst (np_random_randn gen n (np_random_seed gen s w)) = fst (draws (normal gen) n (seed_state gen s))"
  by (simp add: np_random_randn_def np_random_seed_def split_beta)

lemma rand_seeded_fallback:
  "fst (np_random_rand gen r c (setFonts (fallback be) k (np_random_seed gen s w))) =
   fst (table (uniform gen) r c (seed_state gen s))"
  by (simp add: np_random_rand_def np_random_seed_def fallback_def split_beta)

lemma import_SAP_mystyle_absent:
  "import_SAP_mystyle be \<lparr>utilities_SAP_mystyle = None, utilities_my_style = m\<rparr> = Inr (fallback be)"
  by (simp add: import_SAP_mystyle_def import_from_def)

lemma printout_isr:
  "writable be (os_path_join (default_arg ''.'' outDir) outFile) \<Longrightarrow>
   \<exists>w'. printout be outFile xl yl t outDir w = Inr w'"
  by (simp add: printout_def Let_def and_then_def plt_savefig_def)

lemma and_then_printout:
  assumes "\<forall>p. writable be p"
  shows "and_then (printout be outFile xl yl t outDir w) k =
         k (projr (printout be outFile xl yl t outDir w))"
proof -
  obtain w' where "printout be outFile xl yl t outDir w = Inr w'"
    using assms printout_isr by blast
  then show ?thesis by (simp add: and_then_def)
qed

lemma and_then_fallback_showData:
  "and_then (showData (fallback be) name w) k = k (plt_show be w)"
  by (simp add: and_then_def fallback_def)

lemma simplePlots_fallback_runs:
  assumes "\<forall>p. writable be p"
  shows "\<exists>w'. simplePlots be gen (fallback be) w = Inr w'"
proof -
  have last: "\<exists>w'. printout be outFile xl yl t outDir v = Inr w'" for outFile xl yl t outDir and v :: "'a world"
    using assms printout_isr by blast
  show ?thesis
    unfolding simplePlots_def Let_def split_beta and_then_printout [OF assms]
      and_then_fallback_showData
    by (rule last)
qed

lemma show3D_fallback_runs: "\<exists>w'. show3D be (fallback be) w = Inr w'"
  by (simp add: show3D_def Let_def fallback_def)

lemma gallery_without_collaborator:
  assumes "\<forall>p. writable be p"
  shows "\<exists>w'. SAP_show_plots be gen \<lparr>utilities_SAP_mystyle = None, utilities_my_style = m\<rparr> w = Inr w'"
proof -
  obtain w1 where "simplePlots be gen (fallback be) w = Inr w1"
    using simplePlots_fallback_runs [OF assms] by blast
  moreover obtain w2 where "show3D be (fallback be) w1 = Inr w2"
    using show3D_fallback_runs by blast
  ultimately show ?thesis
    by (simp add: SAP_show_plots_def import_SAP_mystyle_absent and_then_def)
qed

section \<open>The gallery and the two scripts: the claims\<close>

text \<open>
  C1. Every demo runs to completion and degrades to plain display when the styling
  module is absent at import time. The gallery does (\<open>gallery_without_collaborator\<close>
  above: the import falls back, font scaling is skipped and \<^verbatim>\<open>showData\<close> only
  shows). The image-filter script does not: with \<^verbatim>\<open>utilities.my_style\<close> absent, its
  import at line 15 raises and nothing is computed or displayed.
\<close>

theorem filter_demo_import_fails:
  "F5_30_filter_images be \<lparr>utilities_SAP_mystyle = s, utilities_my_style = None\<rparr> img w =
   Inl (ImportError ''utilities.my_style'')"
  by (simp add: F5_30_filter_images_def import_from_def and_then_def)


text \<open>
  C5. In the errorbar demo the x-values are 0 to 4, the plotted y-values are their
  squares 0, 1, 4, 9, 16 and the error magnitudes are the halves 0, 0.5, 1, 1.5, 2.
\<close>

theorem errorbar_values:
  "errorbar_data = ([0, 1, 2, 3, 4], [0, 1, 4, 9, 16], [0, 1 / 2, 1, 3 / 2, 2])"
  by code_simp

text \<open>
  C6. A call of \<^verbatim>\<open>printout\<close> whose target can be written returns; after it a file
  exists at the output directory (the current directory by default) joined with the
  file name, the saved figure ends with the horizontal line at y = 0 across the
  x-range of the figure at the call, and two lines were printed, one naming the
  output directory and one naming the file.
\<close>

theorem printout_saves:
  assumes "writable be (os_path_join (default_arg ''.'' outDir) outFile)"
  shows "\<exists>w' f. printout be outFile xl yl t outDir w = Inr w' \<and>
           files w' (os_path_join (default_arg ''.'' outDir) outFile) = Some (f, 200) \<and>
           last (artists f) = HLines 0 (fst (get_xlim w)) (snd (get_xlim w)) ''--'' ''#999999'' \<and>
           console w' = console w @ [''OutDir: '' @ default_arg ''.'' outDir,
                                     ''Figure saved to '' @ outFile]"
  using assms
  by (simp add: printout_def Let_def and_then_def plt_defs)

theorem printout_saves_witness:
  "writable \<lparr>writable = (\<lambda>p. True), view_x = (\<lambda>as. (- 1, 2)), view_y = (\<lambda>as. (0, 1)),
              show_closes = False\<rparr>
     (os_path_join (default_arg ''.'' None) ''scatterPlot.png'') \<and>
   (\<exists>w' f. printout \<lparr>writable = (\<lambda>p. True), view_x = (\<lambda>as. (- 1, 2)), view_y = (\<lambda>as. (0, 1)),
              show_closes = False\<rparr> ''scatterPlot.png'' (Some ''Datapoints'') (Some ''Values'')
              (Some ''Scatter'') None
              \<lparr>rng = (), figs = [], files = Map.empty, console = [], shown = [], rc = []\<rparr> = Inr w' \<and>
      files w' ''./scatterPlot.png'' = Some (f, 200) \<and>
      last (artists f) = HLines 0 0 1 ''--'' ''#999999'' \<and>
      console w' = [''OutDir: .'', ''Figure saved to scatterPlot.png''])"
proof -
  let ?be = "\<lparr>writable = (\<lambda>p. True), view_x = (\<lambda>as. (- 1, 2)), view_y = (\<lambda>as. (0, 1)),
              show_closes = False\<rparr>"
  let ?w = "\<lparr>rng = (), figs = [], files = Map.empty, console = [], shown = [], rc = []\<rparr>"
  have h: "writable ?be (os_path_join (default_arg ''.'' None) ''scatterPlot.png'')"
    by simp
  have p: "os_path_join ''.'' ''scatterPlot.png'' = ''./scatterPlot.png''"
    by (simp add: os_path_join_def)
  have d: "default_arg ''.'' None = ''.''"
    by (simp add: default_arg_def)
  have x: "get_xlim ?w = (0, 1)"
    by (simp add: get_xlim_def gcf_def new_figure_def)
  have c: "console ?w = []"
    by simp
  from printout_saves [OF h, where xl = "Some ''Datapoints''" and yl = "Some ''Values''"
      and t = "Some ''Scatter''" and w = ?w]
  obtain w' f where
    "printout ?be ''scatterPlot.png'' (Some ''Datapoints'') (Some ''Values'') (Some ''Scatter'')
       None ?w = Inr w'"
    "files w' ''./scatterPlot.png'' = Some (f, 200)"
    "last (artists f) = HLines 0 0 1 ''--'' ''#999999''"
    "console w' = [''OutDir: .'', ''Figure saved to scatterPlot.png'']"
    unfolding d p x c by auto
  with h show ?thesis by blast
qed

text \<open>
  C7. With the seed 1234 fixed, a run of the gallery does not depend on the state of
  the generator before the run: two runs that differ only in that state are equal,
  and so are the 500 normal samples and the table drawn after the second seeding,
  whatever the states of the two runs before the seeding.
\<close>

theorem seeded_runs_identical:
  "simplePlots be gen sty (w\<lparr>rng := g\<rparr>) = simplePlots be gen sty w \<and>
   fst (np_random_randn gen 500 (np_random_seed gen 1234 w1)) =
   fst (np_random_randn gen 500 (np_random_seed gen 1234 w2)) \<and>
   fst (np_random_rand gen 10 4 (setFonts (fallback be) 20 (np_random_seed gen 1234 w1))) =
   fst (np_random_rand gen 10 4 (setFonts (fallback be) 20 (np_random_seed gen 1234 w2)))"
proof -
  have "simplePlots be gen sty (w\<lparr>rng := g\<rparr>) = simplePlots be gen sty w"
    unfolding simplePlots_def np_random_seed_rng ..
  then show ?thesis
    by (simp only: randn_seeded rand_seeded_fallback)
qed


text \<open>
  C8. In the pie demo the four fractions 45, 30, 15, 10 sum to 100, and the explode
  offset is non-zero at index 1 only, where it is 0.05.
\<close>

theorem pie_values:
  "(case pie_data of (txtLabels, fractions, offsets) \<Rightarrow>
      fractions = [45, 30, 15, 10] \<and> sum_list fractions = 100 \<and>
      filter (\<lambda>i. offsets ! i \<noteq> 0) [0..<length offsets] = [1] \<and>
      offsets ! 1 = 5 / 100)"
  by code_simp

text \<open>
  C10. Naming \<^verbatim>\<open>plt.tight_layout\<close> without calling it changes nothing: the figure
  \<^verbatim>\<open>printout\<close> saves has the layout state the current figure had at the call, and
  the x-axis limits it had before the line at y = 0 was drawn, whatever autoscaling
  does when the line is added.
\<close>

theorem printout_frame:
  assumes "printout be outFile xl yl t outDir w = Inr w'"
    and "files w' (os_path_join (default_arg ''.'' outDir) outFile) = Some (f, d)"
  shows "plt_tight_layout_name w = w \<and> tight f = tight (gcf w) \<and> xlim f = xlim (gcf w)"
  using assms
  by (auto simp add: printout_def Let_def and_then_def plt_defs split: if_splits)



theorem printout_frame_witness:
  "\<exists>w' f. printout \<lparr>writable = (\<lambda>p. True), view_x = (\<lambda>as. (- 1, 2)), view_y = (\<lambda>as. (0, 1)),
              show_closes = False\<rparr> ''boxplot.png'' (Some ''Values'') None (Some ''Boxplot'') None
              \<lparr>rng = (), figs = [], files = Map.empty, console = [], shown = [], rc = []\<rparr> = Inr w' \<and>
      files w' ''./boxplot.png'' = Some (f, 200) \<and> tight f = False \<and> xlim f = (0, 1)"
proof -
  let ?be = "\<lparr>writable = (\<lambda>p. True), view_x = (\<lambda>as. (- 1, 2)), view_y = (\<lambda>as. (0, 1)),
              show_closes = False\<rparr>"
  let ?w = "\<lparr>rng = (), figs = [], files = Map.empty, console = [], shown = [], rc = []\<rparr>"
  have h: "writable ?be (os_path_join (default_arg ''.'' None) ''boxplot.png'')"
    by simp
  have p: "os_path_join (default_arg ''.'' None) ''boxplot.png'' = ''./boxplot.png''"
    by (simp add: os_path_join_def default_arg_def)
  have g: "tight (gcf ?w) = False" "xlim (gcf ?w) = (0, 1)"
    by (simp_all add: gcf_def new_figure_def)
  from printout_file [OF h, where xl = "Some ''Values''" and yl = None
      and t = "Some ''Boxplot''" and w = ?w]
  obtain w' f where
    r: "printout ?be ''boxplot.png'' (Some ''Values'') None (Some ''Boxplot'') None ?w = Inr w'"
    and s: "files w' (os_path_join (default_arg ''.'' None) ''boxplot.png'') = Some (f, 200)"
    by blast
  from printout_frame [OF r s] have "tight f = False" "xlim f = (0, 1)"
    unfolding g by simp_all
  with r s show ?thesis
    unfolding p by blast
qed

end
